theory Spec2Isabelle
  imports Main
begin

unbundle bit_operations_syntax

section \<open>Machine arithmetic of the C++ source\<close>

text \<open>
  The source computes with C++ \<open>int\<close> (32 bits, two's complement). A value of that type
  is an \<open>int\<close> here, and every arithmetic result is brought back into the 32-bit range by
  \<open>i32\<close>: the conversion \<open>int(...)\<close> of an unsigned size does that, and so does a
  two's-complement machine when a sum or a product leaves the range (C++ itself leaves
  signed overflow undefined). The theorems that depend on the arithmetic are stated for
  regions on which nothing overflows. Integer division in C++ truncates towards zero.
\<close>

definition i32 :: "int \<Rightarrow> int" where
  "i32 v = (v + 2147483648) mod 4294967296 - 2147483648"

definition tdiv :: "int \<Rightarrow> int \<Rightarrow> int" where
  "tdiv a b = (if (a < 0) = (b < 0) then \<bar>a\<bar> div \<bar>b\<bar> else - (\<bar>a\<bar> div \<bar>b\<bar>))"

section \<open>The region of interest\<close>

text \<open>
  Modelled from the spec: the \<open>ROI\<close> type is declared in a header that is not part of
  \<open>imagebufalgo_util.h\<close>. The spec gives it six integer bounds (begin and exclusive end
  per axis), a channel range, and the derived width, height, depth and pixel count
  (the product of the spatial extents). \<open>parallel_image\<close> divides the pixel count by
  \<open>size_t(16384)\<close>, so it is an unsigned size; it is taken here at 64 bits.
\<close>

record ROI =
  xbegin :: int
  xend :: int
  ybegin :: int
  yend :: int
  zbegin :: int
  zend :: int
  chbegin :: int
  chend :: int

text \<open>
  Modelled from the spec: the derived queries \<open>width\<close>, \<open>height\<close> and \<open>depth\<close> of \<open>ROI\<close>
  (missing with the type), the extents \<open>end - begin\<close> as \<open>int\<close>.
\<close>

definition width :: "ROI \<Rightarrow> int" where
  "width roi = i32 (xend roi - xbegin roi)"

definition height :: "ROI \<Rightarrow> int" where
  "height roi = i32 (yend roi - ybegin roi)"

definition depth :: "ROI \<Rightarrow> int" where
  "depth roi = i32 (zend roi - zbegin roi)"

text \<open>
  Modelled from the spec: the query \<open>npixels\<close> of \<open>ROI\<close> (missing with the type), the
  product of the spatial extents as an unsigned 64-bit size.
\<close>

definition npixels :: "ROI \<Rightarrow> int" where
  "npixels roi = (width roi * height roi * depth roi) mod 18446744073709551616"

section \<open>The parallel executor \<open>parallel_image\<close>\<close>

datatype SplitDir = Split_X | Split_Y | Split_Z | Split_Biggest

text \<open>The value of the enumerator, as \<open>int(splitdir)\<close> reads it.\<close>

fun SplitDir_int :: "SplitDir \<Rightarrow> int" where
  "SplitDir_int Split_X = 0"
| "SplitDir_int Split_Y = 1"
| "SplitDir_int Split_Z = 2"
| "SplitDir_int Split_Biggest = 3"

text \<open>
  What \<open>parallel_image\<close> does with the callable \<open>f\<close>, in program order: \<open>Spawn r\<close> is
  \<open>threads.add_thread (new OIIO::thread (f, r))\<close>, \<open>Run r\<close> is the call \<open>f (r)\<close> in the
  calling thread, \<open>Join_all\<close> is \<open>threads.join_all ()\<close>.
\<close>

datatype event = Spawn ROI | Run ROI | Join_all

text \<open>
  Lines 95--99: a thread count \<open>\<le> 0\<close> is replaced by the "threads" attribute (a
  process-wide setting, a parameter here), then capped by one thread per 16384 pixels.
\<close>

definition requested_nthreads :: "int \<Rightarrow> int \<Rightarrow> int" where
  "requested_nthreads threads_attr nthreads =
     (if nthreads \<le> 0 then threads_attr else nthreads)"

definition capped_nthreads :: "int \<Rightarrow> ROI \<Rightarrow> int \<Rightarrow> int" where
  "capped_nthreads threads_attr roi nthreads =
     min (requested_nthreads threads_attr nthreads)
         (i32 (1 + i32 (npixels roi div 16384)))"

text \<open>Lines 107--108: \<open>Split_Biggest\<close> (or beyond) is resolved to the longer of x and y.\<close>

definition split_axis :: "ROI \<Rightarrow> SplitDir \<Rightarrow> SplitDir" where
  "split_axis roi splitdir =
     (if SplitDir_int splitdir \<ge> SplitDir_int Split_Biggest
      then (if width roi > height roi then Split_X else Split_Y)
      else splitdir)"

text \<open>
  Lines 109--113: the bounds of the split axis, read from the array \<open>minmax\<close>. The axis
  is one of x, y and z at that point, so the index is 0, 2 or 4 (and the next one).
\<close>

definition minmax :: "ROI \<Rightarrow> int list" where
  "minmax roi = [xbegin roi, xend roi, ybegin roi, yend roi, zbegin roi, zend roi]"

definition roi_begin :: "ROI \<Rightarrow> SplitDir \<Rightarrow> int" where
  "roi_begin roi splitdir = minmax roi ! nat (2 * SplitDir_int splitdir)"

definition roi_end :: "ROI \<Rightarrow> SplitDir \<Rightarrow> int" where
  "roi_end roi splitdir = minmax roi ! nat (2 * SplitDir_int splitdir + 1)"

definition splitlen :: "ROI \<Rightarrow> SplitDir \<Rightarrow> int" where
  "splitlen roi splitdir = i32 (roi_end roi splitdir - roi_begin roi splitdir)"

text \<open>Line 118: the length of a band along the split axis.\<close>

definition blocksize :: "int \<Rightarrow> int \<Rightarrow> int" where
  "blocksize len nthreads = max 1 (tdiv (i32 (i32 (len + nthreads) - 1)) nthreads)"

text \<open>
  Lines 120--135: the band is written into the split axis of \<open>roi\<close>; the branches are
  tested in the source's order (y, then x, else z).
\<close>

definition set_band :: "SplitDir \<Rightarrow> int \<Rightarrow> int \<Rightarrow> ROI \<Rightarrow> ROI" where
  "set_band splitdir b e roi =
     (if splitdir = Split_Y then roi\<lparr>ybegin := b, yend := e\<rparr>
      else if splitdir = Split_X then roi\<lparr>xbegin := b, xend := e\<rparr>
      else roi\<lparr>zbegin := b, zend := e\<rparr>)"

text \<open>
  Lines 119--140: the loop over \<open>i\<close>. The counter stays below \<open>nthreads\<close>, itself an
  \<open>int\<close>, so \<open>i + 1\<close> cannot leave the range and is not wrapped.
\<close>

function band_loop ::
  "SplitDir \<Rightarrow> int \<Rightarrow> int \<Rightarrow> int \<Rightarrow> int \<Rightarrow> int \<Rightarrow> ROI \<Rightarrow> event list" where
  "band_loop splitdir rbegin rend bsize nthreads i roi =
     (if i < nthreads then
        (let b = i32 (rbegin + i32 (i * bsize));
             e = min (i32 (b + bsize)) rend;
             roi' = set_band splitdir b e roi
         in if b \<ge> e then []
            else (if i < i32 (nthreads - 1) then Spawn roi' else Run roi')
                 # band_loop splitdir rbegin rend bsize nthreads (i + 1) roi')
      else [])"
  by pat_completeness auto
termination
  by (relation "measure (\<lambda>(splitdir, rbegin, rend, bsize, nthreads, i, roi). nat (nthreads - i))")
     auto

declare band_loop.simps [simp del]

definition parallel_image :: "int \<Rightarrow> ROI \<Rightarrow> int \<Rightarrow> SplitDir \<Rightarrow> event list" where
  "parallel_image threads_attr roi nthreads splitdir =
     (let nthreads1 = capped_nthreads threads_attr roi nthreads
      in if nthreads1 \<le> 1 then [Run roi]
         else
           (let splitdir' = split_axis roi splitdir;
                len = splitlen roi splitdir';
                nthreads2 = min nthreads1 len
            in band_loop splitdir' (roi_begin roi splitdir') (roi_end roi splitdir')
                 (blocksize len nthreads2) nthreads2 0 roi
               @ [Join_all]))"



section \<open>Notions used to state the properties of the bands\<close>


text \<open>A region with at least one pixel.\<close>

definition roi_nonempty :: "ROI \<Rightarrow> bool" where
  "roi_nonempty roi \<longleftrightarrow>
     xbegin roi < xend roi \<and> ybegin roi < yend roi \<and> zbegin roi < zend roi"





text \<open>
  The extent of a region along an axis, and the invariant of the spec's data model: begin
  \<open>\<le>\<close> end on every axis.
\<close>

definition extent :: "ROI \<Rightarrow> SplitDir \<Rightarrow> int" where
  "extent roi d = roi_end roi d - roi_begin roi d"




text \<open>
  A condition under which the sums of the band computation (lines 113--122) are values
  of \<open>int\<close>: along the axis \<open>d\<close> and for the thread count \<open>n\<close>, with \<open>n' = min n extent\<close>
  the count that the loop uses, the begin is at least \<open>-2^31\<close>, \<open>extent + n'\<close> is at most
  \<open>2^31 - 1\<close> and \<open>end + n'\<close> is at most \<open>2^31\<close> (no sum that the loop forms is above
  \<open>end + n' - 1\<close>).
\<close>

definition bands_fit_int :: "ROI \<Rightarrow> SplitDir \<Rightarrow> int \<Rightarrow> bool" where
  "bands_fit_int roi d n \<longleftrightarrow>
     - 2147483648 \<le> roi_begin roi d \<and>
     extent roi d + min n (extent roi d) \<le> 2147483647 \<and>
     roi_end roi d + min n (extent roi d) \<le> 2147483648"

text \<open>The number of worker threads that a run of \<open>parallel_image\<close> creates.\<close>

fun spawned :: "event list \<Rightarrow> nat" where
  "spawned [] = 0"
| "spawned (Spawn r # evs) = Suc (spawned evs)"
| "spawned (Run r # evs) = spawned evs"
| "spawned (Join_all # evs) = spawned evs"

section \<open>Pixel types and image buffers\<close>

text \<open>
  Modelled from the spec: \<open>TypeDesc::BASETYPE\<close> is declared in a header that is not part of
  this file. The nine tags below are the ones the dispatch macros name; \<open>OTHER k\<close> stands
  for any further tag of the enumeration, which the macros reach in their \<open>default\<close>
  branch. \<open>TypeDesc::INT\<close> is written \<open>INT'\<close>.
\<close>

datatype BASETYPE =
  FLOAT | UINT8 | HALF | UINT16 | INT8 | INT16 | UINT | INT' | DOUBLE | OTHER nat

text \<open>The C++ types at which the macros instantiate the template \<open>func\<close>.\<close>

datatype CType =
  C_float | C_unsigned_char | C_half | C_unsigned_short | C_char | C_short
  | C_unsigned_int | C_int | C_double

text \<open>
  The C++ type that a tag describes: each \<open>case\<close> label of the exhaustive macros (lines
  213--230) stands next to the template argument of that type.
\<close>

fun ctype_of :: "BASETYPE \<Rightarrow> CType option" where
  "ctype_of FLOAT = Some C_float"
| "ctype_of UINT8 = Some C_unsigned_char"
| "ctype_of HALF = Some C_half"
| "ctype_of UINT16 = Some C_unsigned_short"
| "ctype_of INT8 = Some C_char"
| "ctype_of INT16 = Some C_short"
| "ctype_of UINT = Some C_unsigned_int"
| "ctype_of INT' = Some C_int"
| "ctype_of DOUBLE = Some C_double"
| "ctype_of (OTHER k) = None"

text \<open>The four "common" tags of the common-type macros.\<close>

fun common_type :: "BASETYPE \<Rightarrow> bool" where
  "common_type FLOAT = True"
| "common_type UINT8 = True"
| "common_type HALF = True"
| "common_type UINT16 = True"
| "common_type t = False"

text \<open>
  Modelled from the spec: \<open>ImageSpec\<close> and \<open>ImageBuf\<close> are declared in headers that are not
  part of this file. The spec describes the buffer as an externally owned container that
  is possibly uninitialized, with a shape and pixel storage and an error state that is a
  queryable field. An initialized buffer has a spec and pixel values; the values are kept
  abstract (\<open>'v\<close>), the storage type is the spec's \<open>sp_format\<close>. The error state is the
  recorded text, empty when there is no error.
\<close>

record ImageSpec =
  sp_roi :: ROI
  sp_roi_full :: ROI
  sp_format :: BASETYPE
  sp_alpha :: bool
  sp_z :: bool
  sp_deep :: bool
  sp_metadata :: "(string \<times> string) list"

record 'v ImageBuf =
  ib_storage :: "(ImageSpec \<times> 'v list) option"
  ib_err :: string

text \<open>
  Modelled from the spec: the default constructor of \<open>ImageBuf\<close> (\<open>ImageBuf Rtmp;\<close>), missing
  with the class. It makes a buffer with no storage and no error.
\<close>

definition IB_new :: "'v ImageBuf" where
  "IB_new = \<lparr>ib_storage = None, ib_err = []\<rparr>"

text \<open>
  Modelled from the spec: the queries \<open>initialized\<close>, \<open>has_error\<close> and \<open>geterror\<close> of
  \<open>ImageBuf\<close>, missing with the class, and the pixel values of an initialized buffer.
\<close>

definition IB_initialized :: "'v ImageBuf \<Rightarrow> bool" where
  "IB_initialized b \<longleftrightarrow> ib_storage b \<noteq> None"

definition IB_has_error :: "'v ImageBuf \<Rightarrow> bool" where
  "IB_has_error b \<longleftrightarrow> ib_err b \<noteq> []"

definition IB_geterror :: "'v ImageBuf \<Rightarrow> string" where
  "IB_geterror b = ib_err b"

definition IB_pixels :: "'v ImageBuf \<Rightarrow> 'v list option" where
  "IB_pixels b = map_option snd (ib_storage b)"

text \<open>
  Modelled from the spec: \<open>ImageBuf::error\<close>, missing with the class. \<open>b.error (msg)\<close>
  records the text on the buffer, after a line break when a text is already there.
\<close>

definition IB_error :: "string \<Rightarrow> 'v ImageBuf \<Rightarrow> 'v ImageBuf" where
  "IB_error msg b =
     b\<lparr>ib_err := (if ib_err b = [] then msg else ib_err b @ [CHR 0x0A] @ msg)\<rparr>"

text \<open>
  Modelled from the spec: \<open>ImageBuf::copy\<close>, missing with the class. After
  \<open>dst.copy (src, format)\<close>, \<open>dst\<close> has the shape and the pixel values of \<open>src\<close>. With
  a format the values are stored in that type ("converting the operand to the default
  floating type"); without one an initialized \<open>dst\<close> keeps its own storage type
  ("converting the result back into the destination's original storage type"), and an
  uninitialized one takes that of \<open>src\<close>. An uninitialized \<open>src\<close> leaves \<open>dst\<close>
  uninitialized. The error state of \<open>dst\<close> is not touched.
\<close>

definition IB_copy :: "'v ImageBuf \<Rightarrow> 'v ImageBuf \<Rightarrow> BASETYPE option \<Rightarrow> 'v ImageBuf" where
  "IB_copy dst src format =
     dst\<lparr>ib_storage :=
       (case ib_storage src of
          None \<Rightarrow> None
        | Some (sp, px) \<Rightarrow>
            Some (sp\<lparr>sp_format :=
                      (case format of
                         Some t \<Rightarrow> t
                       | None \<Rightarrow> (case ib_storage dst of
                                    None \<Rightarrow> sp_format sp
                                  | Some (dsp, dpx) \<Rightarrow> sp_format dsp))\<rparr>, px))\<rparr>"

section \<open>The dispatch macros\<close>

text \<open>
  A macro assigns \<open>ret\<close> and may change \<open>R\<close>; its model returns both. The template
  \<open>func\<close> is a function of its template arguments and of the buffers the macro names;
  the arguments in \<open>__VA_ARGS__\<close> are the same in every branch and stay inside \<open>func\<close>.
  \<open>tname\<close> is the text that the \<open>%s\<close> of \<open>error\<close> prints for a type.
\<close>

type_synonym 'v outcome = "bool \<times> 'v ImageBuf"





text \<open>
  The common-type macros. Their \<open>default\<close> branch takes every tag but the four common
  ones, so it is written here as the last, catch-all case.
\<close>

definition OIIO_DISPATCH_COMMON_TYPES ::
  "string \<Rightarrow> (CType \<Rightarrow> 'v ImageBuf \<Rightarrow> 'v outcome) \<Rightarrow> BASETYPE \<Rightarrow> 'v ImageBuf \<Rightarrow> 'v outcome" where
  "OIIO_DISPATCH_COMMON_TYPES name func type R =
     (case type of
        FLOAT \<Rightarrow> func C_float R
      | UINT8 \<Rightarrow> func C_unsigned_char R
      | HALF \<Rightarrow> func C_half R
      | UINT16 \<Rightarrow> func C_unsigned_short R
      | _ \<Rightarrow>
          (let Rtmp = IB_new;
               Rtmp = (if IB_initialized R then IB_copy Rtmp R (Some FLOAT) else Rtmp);
               (ret, Rtmp) = func C_float Rtmp
           in if ret then (ret, IB_copy R Rtmp None)
              else (ret, IB_error (IB_geterror Rtmp) R)))"

definition OIIO_DISPATCH_COMMON_TYPES2_HELP ::
  "string \<Rightarrow> (CType \<Rightarrow> CType \<Rightarrow> 'v ImageBuf \<Rightarrow> 'v ImageBuf \<Rightarrow> 'v outcome) \<Rightarrow>
   CType \<Rightarrow> BASETYPE \<Rightarrow> 'v ImageBuf \<Rightarrow> 'v ImageBuf \<Rightarrow> 'v outcome" where
  "OIIO_DISPATCH_COMMON_TYPES2_HELP name func Rtype Atype R A =
     (case Atype of
        FLOAT \<Rightarrow> func Rtype C_float R A
      | UINT8 \<Rightarrow> func Rtype C_unsigned_char R A
      | HALF \<Rightarrow> func Rtype C_half R A
      | UINT16 \<Rightarrow> func Rtype C_unsigned_short R A
      | _ \<Rightarrow>
          (let Atmp = IB_copy IB_new A (Some FLOAT)
           in func Rtype C_float R Atmp))"

definition OIIO_DISPATCH_COMMON_TYPES2 ::
  "string \<Rightarrow> (CType \<Rightarrow> CType \<Rightarrow> 'v ImageBuf \<Rightarrow> 'v ImageBuf \<Rightarrow> 'v outcome) \<Rightarrow>
   BASETYPE \<Rightarrow> BASETYPE \<Rightarrow> 'v ImageBuf \<Rightarrow> 'v ImageBuf \<Rightarrow> 'v outcome" where
  "OIIO_DISPATCH_COMMON_TYPES2 name func Rtype Atype R A =
     (case Rtype of
        FLOAT \<Rightarrow> OIIO_DISPATCH_COMMON_TYPES2_HELP name func C_float Atype R A
      | UINT8 \<Rightarrow> OIIO_DISPATCH_COMMON_TYPES2_HELP name func C_unsigned_char Atype R A
      | HALF \<Rightarrow> OIIO_DISPATCH_COMMON_TYPES2_HELP name func C_half Atype R A
      | UINT16 \<Rightarrow> OIIO_DISPATCH_COMMON_TYPES2_HELP name func C_unsigned_short Atype R A
      | _ \<Rightarrow>
          (let Rtmp = IB_new;
               Rtmp = (if IB_initialized R then IB_copy Rtmp R (Some FLOAT) else Rtmp);
               (ret, Rtmp) = OIIO_DISPATCH_COMMON_TYPES2_HELP name func C_float Atype Rtmp A
           in if ret then (ret, IB_copy R Rtmp None)
              else (ret, IB_error (IB_geterror Rtmp) R)))"

text \<open>
  The innermost helper of the three-operand macro switches on the type of \<open>R\<close>. In its
  \<open>default\<close> branch the source calls \<open>func<float,Atype,Btype> (R,A,B,...)\<close>: on \<open>R\<close>, while
  the branch of the one- and two-operand macros calls \<open>func\<close> on \<open>Rtmp\<close>.
\<close>

definition OIIO_DISPATCH_COMMON_TYPES3_HELP2 ::
  "string \<Rightarrow>
   (CType \<Rightarrow> CType \<Rightarrow> CType \<Rightarrow> 'v ImageBuf \<Rightarrow> 'v ImageBuf \<Rightarrow> 'v ImageBuf \<Rightarrow> 'v outcome) \<Rightarrow>
   BASETYPE \<Rightarrow> CType \<Rightarrow> CType \<Rightarrow> 'v ImageBuf \<Rightarrow> 'v ImageBuf \<Rightarrow> 'v ImageBuf \<Rightarrow> 'v outcome" where
  "OIIO_DISPATCH_COMMON_TYPES3_HELP2 name func Rtype Atype Btype R A B =
     (case Rtype of
        FLOAT \<Rightarrow> func C_float Atype Btype R A B
      | UINT8 \<Rightarrow> func C_unsigned_char Atype Btype R A B
      | HALF \<Rightarrow> func C_half Atype Btype R A B
      | UINT16 \<Rightarrow> func C_unsigned_short Atype Btype R A B
      | _ \<Rightarrow>
          (let Rtmp = IB_new;
               Rtmp = (if IB_initialized R then IB_copy Rtmp R (Some FLOAT) else Rtmp);
               (ret, R) = func C_float Atype Btype R A B
           in if ret then (ret, IB_copy R Rtmp None)
              else (ret, IB_error (IB_geterror Rtmp) R)))"

definition OIIO_DISPATCH_COMMON_TYPES3_HELP ::
  "string \<Rightarrow>
   (CType \<Rightarrow> CType \<Rightarrow> CType \<Rightarrow> 'v ImageBuf \<Rightarrow> 'v ImageBuf \<Rightarrow> 'v ImageBuf \<Rightarrow> 'v outcome) \<Rightarrow>
   BASETYPE \<Rightarrow> CType \<Rightarrow> BASETYPE \<Rightarrow> 'v ImageBuf \<Rightarrow> 'v ImageBuf \<Rightarrow> 'v ImageBuf \<Rightarrow> 'v outcome" where
  "OIIO_DISPATCH_COMMON_TYPES3_HELP name func Rtype Atype Btype R A B =
     (case Btype of
        FLOAT \<Rightarrow> OIIO_DISPATCH_COMMON_TYPES3_HELP2 name func Rtype Atype C_float R A B
      | UINT8 \<Rightarrow> OIIO_DISPATCH_COMMON_TYPES3_HELP2 name func Rtype Atype C_unsigned_char R A B
      | HALF \<Rightarrow> OIIO_DISPATCH_COMMON_TYPES3_HELP2 name func Rtype Atype C_half R A B
      | UINT16 \<Rightarrow> OIIO_DISPATCH_COMMON_TYPES3_HELP2 name func Rtype Atype C_unsigned_short R A B
      | _ \<Rightarrow>
          (let Btmp = IB_copy IB_new B (Some FLOAT)
           in OIIO_DISPATCH_COMMON_TYPES3_HELP2 name func Rtype Atype C_float R A Btmp))"

definition OIIO_DISPATCH_COMMON_TYPES3 ::
  "string \<Rightarrow>
   (CType \<Rightarrow> CType \<Rightarrow> CType \<Rightarrow> 'v ImageBuf \<Rightarrow> 'v ImageBuf \<Rightarrow> 'v ImageBuf \<Rightarrow> 'v outcome) \<Rightarrow>
   BASETYPE \<Rightarrow> BASETYPE \<Rightarrow> BASETYPE \<Rightarrow> 'v ImageBuf \<Rightarrow> 'v ImageBuf \<Rightarrow> 'v ImageBuf \<Rightarrow> 'v outcome" where
  "OIIO_DISPATCH_COMMON_TYPES3 name func Rtype Atype Btype R A B =
     (case Atype of
        FLOAT \<Rightarrow> OIIO_DISPATCH_COMMON_TYPES3_HELP name func Rtype C_float Btype R A B
      | UINT8 \<Rightarrow> OIIO_DISPATCH_COMMON_TYPES3_HELP name func Rtype C_unsigned_char Btype R A B
      | HALF \<Rightarrow> OIIO_DISPATCH_COMMON_TYPES3_HELP name func Rtype C_half Btype R A B
      | UINT16 \<Rightarrow> OIIO_DISPATCH_COMMON_TYPES3_HELP name func Rtype C_unsigned_short Btype R A B
      | _ \<Rightarrow>
          (let Atmp = IB_copy IB_new A (Some FLOAT)
           in OIIO_DISPATCH_COMMON_TYPES3_HELP name func Rtype C_float Btype R Atmp B))"

section \<open>Type promotion\<close>

text \<open>
  Lines 193--197: the three-way merge is the two-way merge applied twice. The two-way
  \<open>type_merge\<close> is only declared in this file; it is a parameter here.
\<close>

definition type_merge3 ::
  "(BASETYPE \<Rightarrow> BASETYPE \<Rightarrow> BASETYPE) \<Rightarrow> BASETYPE \<Rightarrow> BASETYPE \<Rightarrow> BASETYPE \<Rightarrow> BASETYPE" where
  "type_merge3 type_merge a b c = type_merge (type_merge a b) c"

section \<open>The preparation routine \<open>IBAprep\<close>\<close>

text \<open>Lines 171--185: the bits of \<open>prepflags\<close>.\<close>

definition IBAprep_DEFAULT :: int where "IBAprep_DEFAULT = 0"
definition IBAprep_REQUIRE_ALPHA :: int where "IBAprep_REQUIRE_ALPHA = push_bit 0 1"
definition IBAprep_REQUIRE_Z :: int where "IBAprep_REQUIRE_Z = push_bit 1 1"
definition IBAprep_REQUIRE_SAME_NCHANNELS :: int where
  "IBAprep_REQUIRE_SAME_NCHANNELS = push_bit 2 1"
definition IBAprep_NO_COPY_ROI_FULL :: int where "IBAprep_NO_COPY_ROI_FULL = push_bit 3 1"
definition IBAprep_NO_SUPPORT_VOLUME :: int where "IBAprep_NO_SUPPORT_VOLUME = push_bit 4 1"
definition IBAprep_NO_COPY_METADATA :: int where "IBAprep_NO_COPY_METADATA = push_bit 8 1"
definition IBAprep_COPY_ALL_METADATA :: int where "IBAprep_COPY_ALL_METADATA = push_bit 9 1"
definition IBAprep_CLAMP_MUTUAL_NCHANNELS :: int where
  "IBAprep_CLAMP_MUTUAL_NCHANNELS = push_bit 10 1"
definition IBAprep_SUPPORT_DEEP :: int where "IBAprep_SUPPORT_DEEP = push_bit 11 1"
definition IBAprep_DEEP_MIXED :: int where "IBAprep_DEEP_MIXED = push_bit 12 1"
definition IBAprep_DST_FLOAT_PIXELS :: int where "IBAprep_DST_FLOAT_PIXELS = push_bit 13 1"
definition IBAprep_MINIMIZE_NCHANNELS :: int where "IBAprep_MINIMIZE_NCHANNELS = push_bit 14 1"

definition flag_set :: "int \<Rightarrow> int \<Rightarrow> bool" where
  "flag_set prepflags flag \<longleftrightarrow> prepflags AND flag \<noteq> 0"

text \<open>
  Modelled from the spec: the first step of the missing body of \<open>IBAprep\<close>. A source
  pointer is \<open>None\<close> when it is \<open>NULL\<close>. A source that is given but is not initialized, or
  carries an error, cannot be used.
\<close>

definition source_unusable :: "'v ImageBuf option \<Rightarrow> bool" where
  "source_unusable src =
     (case src of None \<Rightarrow> False | Some s \<Rightarrow> \<not> IB_initialized s \<or> IB_has_error s)"

text \<open>
  Modelled from the spec: the spec of a buffer (\<open>ImageBuf::spec\<close>, missing with the class),
  the specs of the sources that are given, the channel count of a region and the union of
  two regions (missing with \<open>ROI\<close>).
\<close>

definition IB_spec :: "'v ImageBuf \<Rightarrow> ImageSpec option" where
  "IB_spec b = map_option fst (ib_storage b)"

definition source_specs :: "'v ImageBuf option list \<Rightarrow> ImageSpec list" where
  "source_specs srcs = List.map_filter (\<lambda>src. Option.bind src IB_spec) srcs"

definition nchannels :: "ROI \<Rightarrow> int" where
  "nchannels roi = chend roi - chbegin roi"

definition roi_union :: "ROI \<Rightarrow> ROI \<Rightarrow> ROI" where
  "roi_union a b =
     \<lparr>xbegin = min (xbegin a) (xbegin b), xend = max (xend a) (xend b),
      ybegin = min (ybegin a) (ybegin b), yend = max (yend a) (yend b),
      zbegin = min (zbegin a) (zbegin b), zend = max (zend a) (zend b),
      chbegin = min (chbegin a) (chbegin b), chend = max (chend a) (chend b)\<rparr>"

text \<open>
  Modelled from the spec: the working region, a step of the missing body of \<open>IBAprep\<close>.
  A region that is given is kept. The "entire image" sentinel
  (\<open>None\<close>) is resolved to the region of an initialized destination, otherwise to the union
  of the sources' regions, with the intersection of their channel ranges under
  \<open>IBAprep_MINIMIZE_NCHANNELS\<close>. Under \<open>IBAprep_CLAMP_MUTUAL_NCHANNELS\<close> the channel range
  is clamped to the smallest channel count of the sources.
\<close>

definition prep_roi :: "ROI option \<Rightarrow> 'v ImageBuf \<Rightarrow> ImageSpec list \<Rightarrow> int \<Rightarrow> ROI option" where
  "prep_roi roi dst specs prepflags =
     (let resolved =
        (case roi of
           Some r \<Rightarrow> Some r
         | None \<Rightarrow>
             (case IB_spec dst of
                Some sp \<Rightarrow> Some (sp_roi sp)
              | None \<Rightarrow>
                  (case specs of
                     [] \<Rightarrow> None
                   | s # ss \<Rightarrow>
                       (let u = foldl roi_union (sp_roi s) (map sp_roi ss)
                        in Some (if flag_set prepflags IBAprep_MINIMIZE_NCHANNELS
                                 then u\<lparr>chbegin := foldl max (chbegin (sp_roi s))
                                                      (map (chbegin \<circ> sp_roi) ss),
                                        chend := foldl min (chend (sp_roi s))
                                                    (map (chend \<circ> sp_roi) ss)\<rparr>
                                 else u)))))
      in case (resolved, specs) of
           (Some r, s # ss) \<Rightarrow>
             Some (if flag_set prepflags IBAprep_CLAMP_MUTUAL_NCHANNELS
                   then r\<lparr>chend := min (chend r)
                            (foldl min (nchannels (sp_roi s)) (map (nchannels \<circ> sp_roi) ss))\<rparr>
                   else r)
         | _ \<Rightarrow> resolved)"

text \<open>
  Modelled from the spec: a step of the missing body of \<open>IBAprep\<close>, the structural
  requirements that the sources and the working region must meet: equal
  channel counts, no volume, no deep data, unless the flags allow them. The result is the
  text of the error, if there is one.
\<close>

definition prep_mismatch :: "ROI option \<Rightarrow> ImageSpec list \<Rightarrow> int \<Rightarrow> string option" where
  "prep_mismatch roi specs prepflags =
     (if flag_set prepflags IBAprep_REQUIRE_SAME_NCHANNELS \<and>
         (\<exists>s\<in>set specs. \<exists>t\<in>set specs. nchannels (sp_roi s) \<noteq> nchannels (sp_roi t))
      then Some ''images must have the same number of channels''
      else if flag_set prepflags IBAprep_NO_SUPPORT_VOLUME \<and>
         (case roi of None \<Rightarrow> False | Some r \<Rightarrow> 1 < zend r - zbegin r)
      then Some ''volumes not supported''
      else if (\<exists>s\<in>set specs. sp_deep s) \<and> \<not> flag_set prepflags IBAprep_SUPPORT_DEEP
      then Some ''deep images not supported''
      else if (\<exists>s\<in>set specs. sp_deep s) \<and> (\<exists>s\<in>set specs. \<not> sp_deep s) \<and>
         \<not> flag_set prepflags IBAprep_DEEP_MIXED
      then Some ''mixing deep and flat images not supported''
      else None)"

text \<open>
  Modelled from the spec: a step of the missing body of \<open>IBAprep\<close>, the shape of a
  destination that is not initialized yet: the forced spec if there is one,
  otherwise the spec of the first source, over the working region, with the union of the
  sources' full windows as its full window (the working region itself when
  \<open>IBAprep_NO_COPY_ROI_FULL\<close> says not to copy the sources' windows), and with the
  metadata of the first source unless \<open>IBAprep_NO_COPY_METADATA\<close> is set (safe and unsafe
  metadata are not told apart, so \<open>IBAprep_COPY_ALL_METADATA\<close> changes nothing). The
  storage type is \<open>FLOAT\<close> under \<open>IBAprep_DST_FLOAT_PIXELS\<close>.
\<close>

definition prep_spec :: "ROI option \<Rightarrow> ImageSpec list \<Rightarrow> ImageSpec option \<Rightarrow> int \<Rightarrow> ImageSpec option" where
  "prep_spec roi specs force_spec prepflags =
     map_option
       (\<lambda>sp. if flag_set prepflags IBAprep_DST_FLOAT_PIXELS then sp\<lparr>sp_format := FLOAT\<rparr> else sp)
       (case force_spec of
          Some fs \<Rightarrow> Some fs
        | None \<Rightarrow>
            (case specs of
               [] \<Rightarrow> None
             | s # ss \<Rightarrow>
                 Some (s\<lparr>sp_roi := (case roi of None \<Rightarrow> sp_roi s | Some r \<Rightarrow> r),
                         sp_roi_full :=
                           (if flag_set prepflags IBAprep_NO_COPY_ROI_FULL
                            then (case roi of None \<Rightarrow> sp_roi s | Some r \<Rightarrow> r)
                            else foldl roi_union (sp_roi_full s) (map sp_roi_full ss)),
                         sp_metadata :=
                           (if flag_set prepflags IBAprep_NO_COPY_METADATA then []
                            else sp_metadata s)\<rparr>)))"

text \<open>
  Modelled from the spec: a step of the missing body of \<open>IBAprep\<close>, the allocation. An
  initialized destination is left as it is (its full window is preserved); an
  uninitialized one receives storage of the shape above, when there is one.
\<close>

definition prep_alloc ::
  "ROI option \<Rightarrow> 'v::zero ImageBuf \<Rightarrow> ImageSpec list \<Rightarrow> ImageSpec option \<Rightarrow> int \<Rightarrow> 'v ImageBuf" where
  "prep_alloc roi dst specs force_spec prepflags =
     (if IB_initialized dst then dst
      else case prep_spec roi specs force_spec prepflags of
             None \<Rightarrow> dst
           | Some sp \<Rightarrow>
               dst\<lparr>ib_storage :=
                     Some (sp, replicate (nat (npixels (sp_roi sp) * nchannels (sp_roi sp))) 0)\<rparr>)"

text \<open>
  Modelled from the spec: a step of the missing body of \<open>IBAprep\<close>, the channels that the
  flags require of the prepared destination.
\<close>

definition prep_missing :: "'v ImageBuf \<Rightarrow> int \<Rightarrow> string option" where
  "prep_missing dst prepflags =
     (case IB_spec dst of
        None \<Rightarrow> None
      | Some sp \<Rightarrow>
          if flag_set prepflags IBAprep_REQUIRE_ALPHA \<and> \<not> sp_alpha sp
          then Some ''images must have alpha channels''
          else if flag_set prepflags IBAprep_REQUIRE_Z \<and> \<not> sp_z sp
          then Some ''images must have depth channels''
          else None)"

text \<open>
  Modelled from the spec: the seven-argument \<open>IBAprep\<close> is only declared in this file
  (line 158); its body is missing. The steps are those of the spec's section on the
  preparation routine, in the order that its two preparation scenarios need: the sources
  are validated first, then the working region is resolved and checked against the
  sources, then the destination is allocated and checked. The result is the success
  flag, the region (an in-out parameter) and the destination.
\<close>

definition IBAprep ::
  "ROI option \<Rightarrow> 'v::zero ImageBuf \<Rightarrow> 'v ImageBuf option \<Rightarrow> 'v ImageBuf option \<Rightarrow>
   'v ImageBuf option \<Rightarrow> ImageSpec option \<Rightarrow> int \<Rightarrow> bool \<times> ROI option \<times> 'v ImageBuf" where
  "IBAprep roi dst A B C force_spec prepflags =
     (if source_unusable A \<or> source_unusable B \<or> source_unusable C then (False, roi, dst)
      else
        (let specs = source_specs [A, B, C];
             roi' = prep_roi roi dst specs prepflags
         in case prep_mismatch roi' specs prepflags of
              Some msg \<Rightarrow> (False, roi', IB_error msg dst)
            | None \<Rightarrow>
                (let dst' = prep_alloc roi' dst specs force_spec prepflags
                 in case prep_missing dst' prepflags of
                      Some msg \<Rightarrow> (False, roi', IB_error msg dst')
                    | None \<Rightarrow> (True, roi', dst'))))"

text \<open>Lines 161--169: the two inline overloads pass \<open>NULL\<close> for what they leave out.\<close>

definition IBAprep_AB ::
  "ROI option \<Rightarrow> 'v::zero ImageBuf \<Rightarrow> 'v ImageBuf option \<Rightarrow> 'v ImageBuf option \<Rightarrow>
   ImageSpec option \<Rightarrow> int \<Rightarrow> bool \<times> ROI option \<times> 'v ImageBuf" where
  "IBAprep_AB roi dst A B force_spec prepflags = IBAprep roi dst A B None force_spec prepflags"

definition IBAprep_A ::
  "ROI option \<Rightarrow> 'v::zero ImageBuf \<Rightarrow> 'v ImageBuf option \<Rightarrow> int \<Rightarrow>
   bool \<times> ROI option \<times> 'v ImageBuf" where
  "IBAprep_A roi dst A prepflags = IBAprep roi dst A None None None prepflags"

section \<open>Regions used as examples\<close>


definition roi_five_rows :: ROI where
  "roi_five_rows = \<lparr>xbegin = 0, xend = 16384, ybegin = 0, yend = 5, zbegin = 0, zend = 1,
     chbegin = 0, chend = 3\<rparr>"

definition roi_wide :: ROI where
  "roi_wide = \<lparr>xbegin = 0, xend = 1024, ybegin = 0, yend = 64, zbegin = 0, zend = 1,
     chbegin = 0, chend = 3\<rparr>"

definition roi_empty :: ROI where
  "roi_empty = \<lparr>xbegin = 0, xend = 0, ybegin = 0, yend = 0, zbegin = 0, zend = 0,
     chbegin = 0, chend = 3\<rparr>"



text \<open>
  A buffer of two pixels with one channel, and three operations of the kind the macros
  dispatch: \<open>add_impl\<close> stores the sum of \<open>A\<close> and \<open>B\<close> in \<open>R\<close>, \<open>copy_impl\<close> stores the
  pixels of \<open>A\<close> in \<open>R\<close>, \<open>fill_impl\<close> exists for \<open>float\<close> only and fills \<open>R\<close> with sevens.
  \<open>ex_tname\<close> prints the name of a type.
\<close>

definition ex_spec :: "BASETYPE \<Rightarrow> ImageSpec" where
  "ex_spec format =
     \<lparr>sp_roi = \<lparr>xbegin = 0, xend = 2, ybegin = 0, yend = 1, zbegin = 0, zend = 1,
                chbegin = 0, chend = 1\<rparr>,
      sp_roi_full = \<lparr>xbegin = 0, xend = 2, ybegin = 0, yend = 1, zbegin = 0, zend = 1,
                chbegin = 0, chend = 1\<rparr>,
      sp_format = format, sp_alpha = False, sp_z = False, sp_deep = False,
      sp_metadata = []\<rparr>"

definition ex_buf :: "BASETYPE \<Rightarrow> int list \<Rightarrow> int ImageBuf" where
  "ex_buf format px = \<lparr>ib_storage = Some (ex_spec format, px), ib_err = []\<rparr>"

definition add_impl ::
  "CType \<Rightarrow> CType \<Rightarrow> CType \<Rightarrow> int ImageBuf \<Rightarrow> int ImageBuf \<Rightarrow> int ImageBuf \<Rightarrow> int outcome" where
  "add_impl Rtype Atype Btype R A B =
     (case (ib_storage R, IB_pixels A, IB_pixels B) of
        (Some (sp, px), Some pa, Some pb) \<Rightarrow>
          (True, R\<lparr>ib_storage := Some (sp, map2 (+) pa pb)\<rparr>)
      | _ \<Rightarrow> (False, IB_error ''add: uninitialized image'' R))"

definition copy_impl ::
  "CType \<Rightarrow> CType \<Rightarrow> int ImageBuf \<Rightarrow> int ImageBuf \<Rightarrow> int outcome" where
  "copy_impl Rtype Atype R A =
     (case (ib_storage R, IB_pixels A) of
        (Some (sp, px), Some pa) \<Rightarrow> (True, R\<lparr>ib_storage := Some (sp, pa)\<rparr>)
      | _ \<Rightarrow> (False, IB_error ''copy: uninitialized image'' R))"

definition fill_impl :: "CType \<Rightarrow> int ImageBuf \<Rightarrow> int outcome" where
  "fill_impl Rtype R =
     (case Rtype of
        C_float \<Rightarrow> (True, R\<lparr>ib_storage := Some (ex_spec FLOAT, [7, 7])\<rparr>)
      | _ \<Rightarrow> (False, IB_error ''fill: not implemented'' R))"


text \<open>
  Two sources for the preparation routine, of two pixels each: one with the channels
  R, G, B and one with R, G, B, A.
\<close>

definition ex_spec_channels :: "int \<Rightarrow> bool \<Rightarrow> ImageSpec" where
  "ex_spec_channels n alpha =
     \<lparr>sp_roi = \<lparr>xbegin = 0, xend = 2, ybegin = 0, yend = 1, zbegin = 0, zend = 1,
                chbegin = 0, chend = n\<rparr>,
      sp_roi_full = \<lparr>xbegin = 0, xend = 2, ybegin = 0, yend = 1, zbegin = 0, zend = 1,
                chbegin = 0, chend = n\<rparr>,
      sp_format = UINT8, sp_alpha = alpha, sp_z = False, sp_deep = False,
      sp_metadata = [(''Software'', ''example'')]\<rparr>"

definition ex_rgb :: "int ImageBuf" where
  "ex_rgb = \<lparr>ib_storage = Some (ex_spec_channels 3 False, [1, 2, 3, 4, 5, 6]), ib_err = []\<rparr>"

definition ex_rgba :: "int ImageBuf" where
  "ex_rgba = \<lparr>ib_storage = Some (ex_spec_channels 4 True, [1, 2, 3, 9, 4, 5, 6, 9]), ib_err = []\<rparr>"

section \<open>Arithmetic of the band computation\<close>

lemma i32_id: "- 2147483648 \<le> v \<Longrightarrow> v < 2147483648 \<Longrightarrow> i32 v = v"
  by (simp add: i32_def)

lemma tdiv_pos: "0 \<le> a \<Longrightarrow> 0 < b \<Longrightarrow> tdiv a b = a div b"
  by (simp add: tdiv_def)

lemma ceil_div_lower: "0 < n \<Longrightarrow> s \<le> n * ((s + n - 1) div n)" for s n :: int
proof -
  assume n: "0 < n"
  have "(s + n - 1) mod n \<le> n - 1" using n by (simp add: zle_diff1_eq)
  moreover have "n * ((s + n - 1) div n) = (s + n - 1) - (s + n - 1) mod n"
    by (simp add: minus_mod_eq_mult_div [symmetric] algebra_simps)
  ultimately show ?thesis by linarith
qed

lemma ceil_div_upper: "0 < n \<Longrightarrow> n * ((s + n - 1) div n) \<le> s + n - 1" for s n :: int
proof -
  assume n: "0 < n"
  have "0 \<le> (s + n - 1) mod n" using n by simp
  moreover have "n * ((s + n - 1) div n) = (s + n - 1) - (s + n - 1) mod n"
    by (simp add: minus_mod_eq_mult_div [symmetric] algebra_simps)
  ultimately show ?thesis by linarith
qed

lemma blocksize_eq:
  assumes "1 \<le> n" "n \<le> s" "s + n \<le> 2147483647"
  shows "blocksize s n = (s + n - 1) div n"
proof -
  have a: "i32 (s + n) = s + n" using assms by (intro i32_id) linarith+
  have b: "i32 (s + n - 1) = s + n - 1" using assms by (intro i32_id) linarith+
  have c: "tdiv (s + n - 1) n = (s + n - 1) div n" using assms by (intro tdiv_pos) linarith+
  have lo: "s \<le> n * ((s + n - 1) div n)" using assms by (intro ceil_div_lower) linarith
  have "1 \<le> (s + n - 1) div n"
  proof (rule ccontr)
    assume "\<not> 1 \<le> (s + n - 1) div n"
    then have "n * ((s + n - 1) div n) \<le> 0" using assms by (intro mult_nonneg_nonpos) linarith+
    with lo assms show False by linarith
  qed
  then show ?thesis by (simp add: blocksize_def a b c)
qed

section \<open>The loop of \<open>parallel_image\<close>\<close>














lemma split_axis_not_Biggest: "split_axis roi splitdir \<noteq> Split_Biggest"
  by (cases splitdir) (simp_all add: split_axis_def)


lemma roi_axis_nonempty:
  assumes "roi_nonempty roi" "d \<noteq> Split_Biggest"
  shows "roi_begin roi d < roi_end roi d"
  using assms
  by (cases d) (simp_all add: roi_nonempty_def roi_begin_def roi_end_def minmax_def)





lemma loop_bounds:
  assumes ne: "roi_nonempty roi" and d: "d \<noteq> Split_Biggest" and n1: "1 < n1"
    and fit: "bands_fit_int roi d n1"
  shows "1 \<le> min n1 (extent roi d)"
    and "1 \<le> blocksize (extent roi d) (min n1 (extent roi d))"
    and "min n1 (extent roi d) * blocksize (extent roi d) (min n1 (extent roi d)) \<le> 2147483647"
    and "roi_begin roi d +
           min n1 (extent roi d) * blocksize (extent roi d) (min n1 (extent roi d)) \<le> 2147483647"
    and "extent roi d \<le> min n1 (extent roi d) * blocksize (extent roi d) (min n1 (extent roi d))"
    and "splitlen roi d = extent roi d"
    and "min n1 (extent roi d) \<le> 2147483647"
proof -
  define s where "s = extent roi d"
  define n where "n = min n1 s"
  have s: "1 \<le> s" using roi_axis_nonempty [OF ne d] by (simp add: s_def extent_def)
  have f: "- 2147483648 \<le> roi_begin roi d" "s + n \<le> 2147483647"
    "roi_end roi d + n \<le> 2147483648"
    using fit by (simp_all add: bands_fit_int_def s_def n_def)
  have n: "1 \<le> n" "n \<le> s" using n1 s by (simp_all add: n_def)
  have bs: "blocksize s n = (s + n - 1) div n" using n f by (intro blocksize_eq)
  have lo: "s \<le> n * blocksize s n" unfolding bs using n by (intro ceil_div_lower) simp
  have up: "n * blocksize s n \<le> s + n - 1" unfolding bs using n by (intro ceil_div_upper) simp
  have bs1: "1 \<le> blocksize s n" by (simp add: blocksize_def)
  have e: "roi_end roi d = roi_begin roi d + s" by (simp add: s_def extent_def)
  have len: "i32 s = s" using s n f by (intro i32_id) linarith+
  from n s lo up bs1 f e
  show "1 \<le> min n1 (extent roi d)"
    and "1 \<le> blocksize (extent roi d) (min n1 (extent roi d))"
    and "min n1 (extent roi d) * blocksize (extent roi d) (min n1 (extent roi d)) \<le> 2147483647"
    and "roi_begin roi d +
           min n1 (extent roi d) * blocksize (extent roi d) (min n1 (extent roi d)) \<le> 2147483647"
    and "extent roi d \<le> min n1 (extent roi d) * blocksize (extent roi d) (min n1 (extent roi d))"
    and "min n1 (extent roi d) \<le> 2147483647"
    unfolding s_def [symmetric] n_def [symmetric] by linarith+
  from len show "splitlen roi d = extent roi d"
    by (simp add: splitlen_def s_def extent_def)
qed

lemma parallel_image_loop:
  assumes ne: "roi_nonempty roi"
    and n1: "1 < capped_nthreads threads_attr roi nthreads"
    and fit: "bands_fit_int roi (split_axis roi splitdir)
                (capped_nthreads threads_attr roi nthreads)"
  shows "parallel_image threads_attr roi nthreads splitdir =
           band_loop (split_axis roi splitdir) (roi_begin roi (split_axis roi splitdir))
             (roi_end roi (split_axis roi splitdir))
             (blocksize (extent roi (split_axis roi splitdir))
                (min (capped_nthreads threads_attr roi nthreads)
                   (extent roi (split_axis roi splitdir))))
             (min (capped_nthreads threads_attr roi nthreads)
                (extent roi (split_axis roi splitdir))) 0 roi
           @ [Join_all]"
proof -
  define d where "d = split_axis roi splitdir"
  have d: "d \<noteq> Split_Biggest" by (simp add: d_def split_axis_not_Biggest)
  have "splitlen roi d = extent roi d"
    using loop_bounds(6) [OF ne d n1] fit by (simp add: d_def)
  then show ?thesis
    using n1 by (simp add: parallel_image_def Let_def d_def [symmetric])
qed




section \<open>The bands partition the region\<close>




section \<open>A single call for one thread or a small region\<close>

lemma i32_0: "i32 0 = 0"
  by (simp add: i32_def)

lemma npixels_empty:
  "xbegin roi = xend roi \<or> ybegin roi = yend roi \<or> zbegin roi = zend roi \<Longrightarrow> npixels roi = 0"
  by (auto simp: npixels_def width_def height_def depth_def i32_0)

text \<open>
  The division of line 118 is never a division by zero: a region that reaches it has
  pixels, so its extent along the split axis is not 0.
\<close>

lemma splitlen_nonzero:
  assumes "1 < capped_nthreads threads_attr roi nthreads"
  shows "min (capped_nthreads threads_attr roi nthreads) (splitlen roi (split_axis roi splitdir)) \<noteq> 0"
proof -
  have "npixels roi \<noteq> 0"
  proof
    assume "npixels roi = 0"
    then have "capped_nthreads threads_attr roi nthreads \<le> 1"
      by (simp add: capped_nthreads_def i32_def)
    with assms show False by simp
  qed
  then have w: "width roi \<noteq> 0" "height roi \<noteq> 0" "depth roi \<noteq> 0"
    by (auto simp: npixels_def)
  have "splitlen roi (split_axis roi splitdir) \<noteq> 0"
    using w
    by (cases splitdir)
       (simp_all add: splitlen_def split_axis_def roi_begin_def roi_end_def minmax_def
          width_def height_def depth_def)
  with assms show ?thesis by (simp add: min_def)
qed

text \<open>
  Claim C7. When the thread count, resolved and capped by the pixel count (lines 95--99),
  is at most 1, and in particular when the region is empty along some axis and so has no
  pixel, \<open>parallel_image\<close> does one thing only: it calls the callable once in the calling
  thread, on the region as it was given. No thread is created.
\<close>

theorem parallel_image_single_call:
  assumes "capped_nthreads threads_attr roi nthreads \<le> 1 \<or>
           xbegin roi = xend roi \<or> ybegin roi = yend roi \<or> zbegin roi = zend roi"
  shows "parallel_image threads_attr roi nthreads splitdir = [Run roi]"
proof -
  have "capped_nthreads threads_attr roi nthreads \<le> 1"
  proof (cases "capped_nthreads threads_attr roi nthreads \<le> 1")
    case True
    then show ?thesis .
  next
    case False
    with assms have "npixels roi = 0" by (intro npixels_empty) blast
    then show ?thesis by (simp add: capped_nthreads_def i32_def)
  qed
  then show ?thesis by (simp add: parallel_image_def)
qed

theorem parallel_image_single_call_witness:
  "xbegin roi_empty = xend roi_empty \<and>
   parallel_image 8 roi_empty 4 Split_Biggest = [Run roi_empty] \<and>
   capped_nthreads 8 roi_wide 1 \<le> 1 \<and>
   parallel_image 8 roi_wide 1 Split_X = [Run roi_wide]"
proof -
  have h1: "xbegin roi_empty = xend roi_empty" by (simp add: roi_empty_def)
  have h2: "capped_nthreads 8 roi_wide 1 \<le> 1"
    by (simp add: capped_nthreads_def requested_nthreads_def)
  from h1 have "parallel_image 8 roi_empty 4 Split_Biggest = [Run roi_empty]"
    by (intro parallel_image_single_call) simp
  moreover from h2 have "parallel_image 8 roi_wide 1 Split_X = [Run roi_wide]"
    by (intro parallel_image_single_call) simp
  ultimately show ?thesis using h1 h2 by simp
qed

section \<open>The thread count\<close>









section \<open>The split axis\<close>





section \<open>Worker threads and the calling thread\<close>

lemma spawned_append: "spawned (xs @ ys) = spawned xs + spawned ys"
  by (induction xs rule: spawned.induct) simp_all

lemma band_loop_spawned: "spawned (band_loop d rb re bs n i roi) \<le> nat (i32 (n - 1) - i)"
proof (induction d rb re bs n i roi rule: band_loop.induct)
  case (1 d rb re bs n i roi)
  define b where "b = i32 (rb + i32 (i * bs))"
  define e where "e = min (i32 (b + bs)) re"
  define r' where "r' = set_band d b e roi"
  show ?case
  proof (cases "i < n \<and> \<not> e \<le> b")
    case False
    then show ?thesis by (subst band_loop.simps) (auto simp: Let_def b_def e_def)
  next
    case True
    then have lt: "i < n" and nb: "\<not> e \<le> b" by simp_all
    have rest: "spawned (band_loop d rb re bs n (i + 1) r') \<le> nat (i32 (n - 1) - (i + 1))"
      using "1.IH" [OF lt b_def e_def r'_def nb] .
    have unf: "band_loop d rb re bs n i roi =
            (if i < i32 (n - 1) then Spawn r' else Run r') # band_loop d rb re bs n (i + 1) r'"
      using lt nb
      by (subst band_loop.simps)
         (simp add: Let_def b_def [symmetric] e_def [symmetric] r'_def [symmetric])
    show ?thesis
    proof (cases "i < i32 (n - 1)")
      case True
      with rest show ?thesis by (simp add: unf)
    next
      case False
      with rest show ?thesis by (simp add: unf)
    qed
  qed
qed

lemma parallel_image_spawned:
  assumes ne: "roi_nonempty roi"
    and n1: "1 < capped_nthreads threads_attr roi nthreads"
    and fit: "bands_fit_int roi (split_axis roi splitdir)
                (capped_nthreads threads_attr roi nthreads)"
  shows "int (spawned (parallel_image threads_attr roi nthreads splitdir)) \<le>
           min (capped_nthreads threads_attr roi nthreads) (extent roi (split_axis roi splitdir)) - 1"
    and "last (parallel_image threads_attr roi nthreads splitdir) = Join_all"
proof -
  define d where "d = split_axis roi splitdir"
  have d: "d \<noteq> Split_Biggest" by (simp add: d_def split_axis_not_Biggest)
  have fit': "bands_fit_int roi d (capped_nthreads threads_attr roi nthreads)"
    using fit by (simp add: d_def)
  define n where "n = min (capped_nthreads threads_attr roi nthreads) (extent roi d)"
  have n: "1 \<le> n" unfolding n_def by (rule loop_bounds(1) [OF ne d n1 fit'])
  have "n \<le> 2147483647" unfolding n_def by (rule loop_bounds(7) [OF ne d n1 fit'])
  with n have w: "i32 (n - 1) = n - 1" by (intro i32_id) linarith+
  note pi = parallel_image_loop [OF ne n1 fit, folded d_def, folded n_def]
  have "spawned (parallel_image threads_attr roi nthreads splitdir) \<le> nat (i32 (n - 1) - 0)"
    unfolding pi
    using band_loop_spawned [of d "roi_begin roi d" "roi_end roi d" "blocksize (extent roi d) n" n 0 roi]
    by (simp add: spawned_append)
  then have "spawned (parallel_image threads_attr roi nthreads splitdir) \<le> nat (n - 1)"
    by (simp only: w diff_zero)
  with n have "int (spawned (parallel_image threads_attr roi nthreads splitdir)) \<le> n - 1"
    by linarith
  then show "int (spawned (parallel_image threads_attr roi nthreads splitdir)) \<le>
           min (capped_nthreads threads_attr roi nthreads) (extent roi (split_axis roi splitdir)) - 1"
    by (simp only: n_def d_def)
  show "last (parallel_image threads_attr roi nthreads splitdir) = Join_all"
    unfolding pi by simp
qed

text \<open>
  Claim C5. The claim says that the last band that is executed always runs in the calling
  thread. On five rows and four threads the block size is 2, the loop hands the three
  bands of rows 0--1, 2--3 and 4 to new threads and leaves at \<open>i = 3\<close>, where no row is
  left: the last band runs on a worker and the calling thread runs none.
\<close>

theorem last_band_spawned:
  "parallel_image 8 roi_five_rows 4 Split_Y =
     [Spawn (roi_five_rows\<lparr>ybegin := 0, yend := 2\<rparr>),
      Spawn (roi_five_rows\<lparr>ybegin := 2, yend := 4\<rparr>),
      Spawn (roi_five_rows\<lparr>ybegin := 4, yend := 5\<rparr>), Join_all]"
  by code_simp

section \<open>Exhaustive dispatch\<close>



section \<open>Common-type dispatch\<close>

text \<open>
  Claim C3. The claim says that for a destination of any other type than the four common
  ones the float instance runs on the converted operand and the result is converted back.
  The three-operand macro calls \<open>func\<close> on \<open>R\<close> itself and then overwrites \<open>R\<close> with the copy
  made before the call: with a \<open>double\<close> destination the dispatch of \<open>add_impl\<close> reports
  success and leaves the pixels \<open>[0, 0]\<close>, where the float instance on the converted
  operand gives \<open>[11, 22]\<close>. The two-operand macro, on the same destination, stores the
  result.
\<close>

theorem common_types3_result_lost:
  "fst (OIIO_DISPATCH_COMMON_TYPES3 ''add'' add_impl DOUBLE FLOAT FLOAT
          (ex_buf DOUBLE [0, 0]) (ex_buf FLOAT [1, 2]) (ex_buf FLOAT [10, 20])) = True \<and>
   IB_pixels (snd (OIIO_DISPATCH_COMMON_TYPES3 ''add'' add_impl DOUBLE FLOAT FLOAT
          (ex_buf DOUBLE [0, 0]) (ex_buf FLOAT [1, 2]) (ex_buf FLOAT [10, 20]))) = Some [0, 0] \<and>
   IB_pixels (snd (add_impl C_float C_float C_float
          (IB_copy IB_new (ex_buf DOUBLE [0, 0]) (Some FLOAT))
          (ex_buf FLOAT [1, 2]) (ex_buf FLOAT [10, 20]))) = Some [11, 22] \<and>
   fst (OIIO_DISPATCH_COMMON_TYPES2 ''copy'' copy_impl DOUBLE FLOAT
          (ex_buf DOUBLE [0, 0]) (ex_buf FLOAT [1, 2])) = True \<and>
   IB_pixels (snd (OIIO_DISPATCH_COMMON_TYPES2 ''copy'' copy_impl DOUBLE FLOAT
          (ex_buf DOUBLE [0, 0]) (ex_buf FLOAT [1, 2]))) = Some [1, 2]"
  by (simp add: OIIO_DISPATCH_COMMON_TYPES3_def OIIO_DISPATCH_COMMON_TYPES3_HELP_def
        OIIO_DISPATCH_COMMON_TYPES3_HELP2_def OIIO_DISPATCH_COMMON_TYPES2_def
        OIIO_DISPATCH_COMMON_TYPES2_HELP_def add_impl_def copy_impl_def ex_buf_def ex_spec_def
        IB_copy_def IB_new_def IB_initialized_def IB_pixels_def)

text \<open>
  The default branch of the innermost three-operand helper, for any \<open>func\<close>: the run is on
  \<open>R\<close>, and what \<open>R\<close> receives afterwards is the temporary made before the run.
\<close>

lemma common_types3_help2_fallback:
  "\<not> common_type Rtype \<Longrightarrow>
   OIIO_DISPATCH_COMMON_TYPES3_HELP2 name func Rtype Atype Btype R A B =
     (let Rtmp = (if IB_initialized R then IB_copy IB_new R (Some FLOAT) else IB_new);
          run = func C_float Atype Btype R A B
      in (fst run, if fst run then IB_copy (snd run) Rtmp None
                   else IB_error (IB_geterror Rtmp) (snd run)))"
  by (cases Rtype)
     (simp_all add: OIIO_DISPATCH_COMMON_TYPES3_HELP2_def Let_def split: prod.splits)

lemma IB_pixels_copy: "IB_pixels (IB_copy dst src format) = IB_pixels src"
  by (simp add: IB_pixels_def IB_copy_def split: option.splits prod.splits)

lemma common_types2_help_eq:
  "OIIO_DISPATCH_COMMON_TYPES2_HELP name func2 rc Atype R A =
     (if common_type Atype then func2 rc (the (ctype_of Atype)) R A
      else func2 rc C_float R (IB_copy IB_new A (Some FLOAT)))"
  by (cases Atype) (simp_all add: OIIO_DISPATCH_COMMON_TYPES2_HELP_def)

lemma common_types_fallback:
  "\<not> common_type type \<Longrightarrow>
   OIIO_DISPATCH_COMMON_TYPES name func type R =
     (let Rtmp = (if IB_initialized R then IB_copy IB_new R (Some FLOAT) else IB_new);
          run = func C_float Rtmp
      in (fst run, if fst run then IB_copy R (snd run) None
                   else IB_error (IB_geterror (snd run)) R))"
  by (cases type)
     (simp_all add: OIIO_DISPATCH_COMMON_TYPES_def Let_def split: prod.splits)

lemma common_types2_fallback:
  "\<not> common_type Rtype \<Longrightarrow>
   OIIO_DISPATCH_COMMON_TYPES2 name func2 Rtype Atype R A =
     (let Rtmp = (if IB_initialized R then IB_copy IB_new R (Some FLOAT) else IB_new);
          run = OIIO_DISPATCH_COMMON_TYPES2_HELP name func2 C_float Atype Rtmp A
      in (fst run, if fst run then IB_copy R (snd run) None
                   else IB_error (IB_geterror (snd run)) R))"
  by (cases Rtype)
     (simp_all add: OIIO_DISPATCH_COMMON_TYPES2_def Let_def split: prod.splits)

text \<open>
  Claim C10. In the one- and two-operand common-type macros, for a destination type that
  is not one of the four common ones: the temporary is a copy of \<open>R\<close> as float when \<open>R\<close>
  is initialized and a fresh buffer when it is not; the float instance runs on the
  temporary; the macro's result is the result of that run, so that an uninitialized
  destination alone never makes the fallback fail; on success \<open>R\<close> receives the contents
  of the temporary, on failure the temporary's error text.
\<close>

theorem common_types_uninitialized_destination:
  assumes "\<not> common_type Rtype"
  shows "let Rtmp = (if IB_initialized R then IB_copy IB_new R (Some FLOAT) else IB_new);
             run1 = func C_float Rtmp;
             out1 = OIIO_DISPATCH_COMMON_TYPES name func Rtype R;
             run2 = (if common_type Atype then func2 C_float (the (ctype_of Atype)) Rtmp A
                     else func2 C_float C_float Rtmp (IB_copy IB_new A (Some FLOAT)));
             out2 = OIIO_DISPATCH_COMMON_TYPES2 name func2 Rtype Atype R A
         in fst out1 = fst run1
          \<and> (if fst run1
              then snd out1 = IB_copy R (snd run1) None \<and> IB_pixels (snd out1) = IB_pixels (snd run1)
              else snd out1 = IB_error (IB_geterror (snd run1)) R)
          \<and> fst out2 = fst run2
          \<and> (if fst run2
              then snd out2 = IB_copy R (snd run2) None \<and> IB_pixels (snd out2) = IB_pixels (snd run2)
              else snd out2 = IB_error (IB_geterror (snd run2)) R)"
  using assms
  by (simp add: common_types_fallback common_types2_fallback common_types2_help_eq Let_def
        IB_pixels_copy)

theorem common_types_uninitialized_destination_witness:
  "\<not> common_type INT16 \<and> \<not> IB_initialized (IB_new :: int ImageBuf) \<and>
   OIIO_DISPATCH_COMMON_TYPES ''fill'' fill_impl INT16 IB_new = (True, ex_buf FLOAT [7, 7])"
proof -
  have h: "\<not> common_type INT16" by simp
  have u: "\<not> IB_initialized (IB_new :: int ImageBuf)" by (simp add: IB_initialized_def IB_new_def)
  have run: "fill_impl C_float IB_new = (True, ex_buf FLOAT [7, 7])"
    by (simp add: fill_impl_def IB_new_def ex_buf_def)
  have "fst (OIIO_DISPATCH_COMMON_TYPES ''fill'' fill_impl INT16 (IB_new :: int ImageBuf)) = True
      \<and> snd (OIIO_DISPATCH_COMMON_TYPES ''fill'' fill_impl INT16 (IB_new :: int ImageBuf)) =
          IB_copy IB_new (ex_buf FLOAT [7, 7]) None"
    using common_types_uninitialized_destination [OF h, of IB_new fill_impl "''fill''"] u
    by (simp add: Let_def run)
  moreover have "IB_copy (IB_new :: int ImageBuf) (ex_buf FLOAT [7, 7]) None = ex_buf FLOAT [7, 7]"
    by (simp add: IB_copy_def IB_new_def ex_buf_def)
  ultimately have "OIIO_DISPATCH_COMMON_TYPES ''fill'' fill_impl INT16 (IB_new :: int ImageBuf) =
                     (True, ex_buf FLOAT [7, 7])"
    by (simp add: prod_eq_iff)
  with h u show ?thesis by simp
qed

section \<open>The three-way merge\<close>

lemma type_merge3_left_nested:
  "type_merge3 type_merge a b c = type_merge (type_merge a b) c"
  by (simp add: type_merge3_def)

section \<open>Unusable sources stop the preparation\<close>

text \<open>
  The two preparation scenarios of the spec, on the model: an uninitialized destination
  and a source with alpha under \<open>IBAprep_REQUIRE_ALPHA\<close> give success and a destination
  of four channels; sources of three and four channels under
  \<open>IBAprep_REQUIRE_SAME_NCHANNELS\<close> give failure, an error text and no storage.
\<close>

lemma IBAprep_scenario_alpha:
  "IBAprep None (IB_new :: int ImageBuf) (Some ex_rgba) None None None IBAprep_REQUIRE_ALPHA =
     (True, Some (sp_roi (ex_spec_channels 4 True)),
      \<lparr>ib_storage = Some (ex_spec_channels 4 True, [0, 0, 0, 0, 0, 0, 0, 0]), ib_err = []\<rparr>)"
  by code_simp

lemma IBAprep_scenario_mismatch:
  "IBAprep None (IB_new :: int ImageBuf) (Some ex_rgb) (Some ex_rgba) None None
     IBAprep_REQUIRE_SAME_NCHANNELS =
     (False, Some (sp_roi (ex_spec_channels 4 True)),
      \<lparr>ib_storage = None, ib_err = ''images must have the same number of channels''\<rparr>)"
  by code_simp

text \<open>
  Claim C9. When a source that is given to \<open>IBAprep\<close> (A, B or C; A or B for the
  six-argument overload; A for the four-argument one) is not initialized or carries an
  error, the result is \<open>false\<close>, and the region and the destination are returned as they
  were given: nothing is allocated and nothing is recorded on the destination.
\<close>

theorem IBAprep_rejects_unusable_source:
  "(source_unusable A \<or> source_unusable B \<or> source_unusable C \<longrightarrow>
      IBAprep roi dst A B C force_spec prepflags = (False, roi, dst))
   \<and> (source_unusable A \<or> source_unusable B \<longrightarrow>
      IBAprep_AB roi dst A B force_spec prepflags = (False, roi, dst))
   \<and> (source_unusable A \<longrightarrow> IBAprep_A roi dst A prepflags = (False, roi, dst))"
  by (simp add: IBAprep_def IBAprep_AB_def IBAprep_A_def)

theorem IBAprep_rejects_unusable_source_witness:
  "source_unusable (Some (IB_new :: int ImageBuf)) \<and>
   IBAprep None (IB_new :: int ImageBuf) (Some (ex_buf FLOAT [1, 2])) (Some IB_new) None None
     IBAprep_DEFAULT = (False, None, IB_new) \<and>
   source_unusable (Some (IB_error ''broken'' (ex_buf FLOAT [1, 2]))) \<and>
   IBAprep_A None (IB_new :: int ImageBuf) (Some (IB_error ''broken'' (ex_buf FLOAT [1, 2])))
     IBAprep_DEFAULT = (False, None, IB_new) \<and>
   IBAprep_A None (IB_new :: int ImageBuf) (Some (ex_buf FLOAT [1, 2])) IBAprep_DEFAULT =
     (True, Some (sp_roi (ex_spec FLOAT)),
      \<lparr>ib_storage = Some (ex_spec FLOAT, [0, 0]), ib_err = []\<rparr>)"
proof -
  have h1: "source_unusable (Some (IB_new :: int ImageBuf))"
    by (simp add: source_unusable_def IB_initialized_def IB_new_def)
  have h2: "source_unusable (Some (IB_error ''broken'' (ex_buf FLOAT [1, 2])))"
    by (simp add: source_unusable_def IB_has_error_def IB_error_def ex_buf_def)
  from h1 have "IBAprep None (IB_new :: int ImageBuf) (Some (ex_buf FLOAT [1, 2])) (Some IB_new)
      None None IBAprep_DEFAULT = (False, None, IB_new)"
    using IBAprep_rejects_unusable_source
      [of "Some (ex_buf FLOAT [1, 2])" "Some IB_new" None None IB_new None IBAprep_DEFAULT]
    by blast
  moreover from h2 have "IBAprep_A None (IB_new :: int ImageBuf)
      (Some (IB_error ''broken'' (ex_buf FLOAT [1, 2]))) IBAprep_DEFAULT = (False, None, IB_new)"
    using IBAprep_rejects_unusable_source
      [of "Some (IB_error ''broken'' (ex_buf FLOAT [1, 2]))" None None None IB_new None
        IBAprep_DEFAULT]
    by blast
  moreover have "IBAprep_A None (IB_new :: int ImageBuf) (Some (ex_buf FLOAT [1, 2]))
      IBAprep_DEFAULT =
     (True, Some (sp_roi (ex_spec FLOAT)),
      \<lparr>ib_storage = Some (ex_spec FLOAT, [0, 0]), ib_err = []\<rparr>)"
    by code_simp
  ultimately show ?thesis using h1 h2 by simp
qed

end
